theory Spec2Isabelle
  imports Complex_Main "HOL-Library.Multiset"
begin

section \<open>Python values\<close>

text \<open>
  The provider envelope is the value \<open>response.json()\<close> returns: \<open>None\<close>, a bool, an
  unbounded int, a float, a str, a list or a dict. A float is a finite double, an infinity
  or NaN (\<open>json.loads\<close> reads all of them); a finite double is recorded by its real value,
  and the code only compares floats, it never computes with them. A dict is an association
  list in insertion order whose keys are distinct; a str is a list of code points below 256.
\<close>

datatype pyfloat = Finite real | PosInf | NegInf | NaN

datatype json =
    JNull
  | JBool bool
  | JInt int
  | JFloat pyfloat
  | JStr string
  | JList "json list"
  | JDict "(string \<times> json) list"

text \<open>
  The message of a \<open>RapidAPIError\<close> is one of seven format strings of
  \<open>rapidapi_client.py\<close>; \<open>err_kind\<close> names the format and keeps its arguments.
\<close>

datatype err_kind =
    InvalidJSON
  | NotJSONObject
  | RetryableStatus int
  | HTTPStatus int string
  | TimedOut real
  | RequestFailed string
  | RetriesExhausted

datatype exc =
    AttributeError
  | TypeError
  | ValueError
  | OverflowError
  | ValidationError
  | RapidAPIError err_kind "int option"
  | HTTPException int
  | RequestValidationError
  | UncaughtError

text \<open>What one call of \<open>request_fn(client)\<close> does: it returns a response (status code, the
  result of \<open>response.json()\<close> with \<open>None\<close> for a body that is not JSON, the body text,
  the elapsed milliseconds the caller measures), or raises \<open>httpx.TimeoutException\<close>
  (with the elapsed milliseconds measured in the handler), another \<open>httpx.RequestError\<close>
  (with its text), or an exception that no handler of the loop catches.\<close>

datatype outcome =
    Response int "json option" string real
  | TimeoutException real
  | RequestError string
  | OtherException

datatype http_request =
    PostFiles string "(string \<times> string)" string string string
  | PostData string "(string \<times> string)" string

text \<open>
  What the code takes from the Python runtime, its libraries and the outside world:
  \<open>float(s)\<close> on a str (\<open>None\<close> is ValueError), \<open>Path(name).suffix\<close>, \<open>round(x, 2)\<close>,
  the upstream's answer to the n-th attempt of a request, the uuid drawn for the request, and
  whether writing a path succeeds (otherwise OSError).
\<close>

record runtime =
  float_of_str :: "string \<Rightarrow> pyfloat option"
  path_suffix :: "string \<Rightarrow> string"
  round2 :: "real \<Rightarrow> real"
  post :: "http_request \<Rightarrow> int \<Rightarrow> outcome"
  uuid4 :: string
  os_write_ok :: "string \<Rightarrow> bool"

subsection \<open>Builtins\<close>

fun truthy :: "json \<Rightarrow> bool" where
  "truthy JNull = False"
| "truthy (JBool b) = b"
| "truthy (JInt i) = (i \<noteq> 0)"
| "truthy (JFloat f) = (f \<noteq> Finite 0)"
| "truthy (JStr s) = (s \<noteq> [])"
| "truthy (JList xs) = (xs \<noteq> [])"
| "truthy (JDict d) = (d \<noteq> [])"

definition py_or :: "json \<Rightarrow> json \<Rightarrow> json" where
  "py_or a b = (if truthy a then a else b)"

definition dict_get :: "(string \<times> json) list \<Rightarrow> string \<Rightarrow> json \<Rightarrow> json" where
  "dict_get d k dflt = (case map_of d k of None \<Rightarrow> dflt | Some v \<Rightarrow> v)"

text \<open>\<open>x.get(k, dflt)\<close> on any value: only a dict has the attribute \<open>get\<close>.\<close>

fun attr_get :: "json \<Rightarrow> string \<Rightarrow> json \<Rightarrow> exc + json" where
  "attr_get (JDict d) k dflt = Inr (dict_get d k dflt)"
| "attr_get _ k dflt = Inl AttributeError"

text \<open>\<open>for x in v\<close>: a list gives its elements, a dict its keys, a str its characters;
  nothing else is iterable.\<close>

fun py_iter :: "json \<Rightarrow> exc + json list" where
  "py_iter (JList xs) = Inr xs"
| "py_iter (JDict d) = Inr (map (\<lambda>kv. JStr (fst kv)) d)"
| "py_iter (JStr s) = Inr (map (\<lambda>c. JStr [c]) s)"
| "py_iter _ = Inl TypeError"

definition isspace :: "char \<Rightarrow> bool" where
  "isspace c = (let n = (of_char c :: nat) in
     (9 \<le> n \<and> n \<le> 13) \<or> (28 \<le> n \<and> n \<le> 32) \<or> n = 133 \<or> n = 160)"

definition strip :: "string \<Rightarrow> string" where
  "strip s = rev (dropWhile isspace (rev (dropWhile isspace s)))"

text \<open>\<open>str.lower\<close> below code point 256: A-Z and the Latin-1 capitals 192-222 (but the
  multiplication sign 215) move up by 32, which sets bit 5.\<close>

definition char_lower :: "char \<Rightarrow> char" where
  "char_lower c = (let n = (of_char c :: nat) in
     if (65 \<le> n \<and> n \<le> 90) \<or> (192 \<le> n \<and> n \<le> 222 \<and> n \<noteq> 215)
     then (case c of Char b0 b1 b2 b3 b4 b5 b6 b7 \<Rightarrow> Char b0 b1 b2 b3 b4 True b6 b7)
     else c)"

definition lower :: "string \<Rightarrow> string" where
  "lower s = map char_lower s"

fun str_strip :: "json \<Rightarrow> exc + string" where
  "str_strip (JStr s) = Inr (strip s)"
| "str_strip _ = Inl AttributeError"

fun str_lower :: "json \<Rightarrow> exc + string" where
  "str_lower (JStr s) = Inr (lower s)"
| "str_lower _ = Inl AttributeError"

text \<open>\<open>float(x)\<close>. An int converts exactly up to \<open>2^53\<close> and to the nearest double above,
  which the model records by the int's own value (either lies outside \<open>[0, 1]\<close>); an int
  that rounds past the largest double raises OverflowError.\<close>

definition float_overflow_bound :: int where
  "float_overflow_bound = 2 ^ 1024 - 2 ^ 970"

fun py_float :: "runtime \<Rightarrow> json \<Rightarrow> exc + pyfloat" where
  "py_float rt JNull = Inl TypeError"
| "py_float rt (JBool b) = Inr (Finite (if b then 1 else 0))"
| "py_float rt (JInt i) =
     (if float_overflow_bound \<le> \<bar>i\<bar> then Inl OverflowError else Inr (Finite (real_of_int i)))"
| "py_float rt (JFloat f) = Inr f"
| "py_float rt (JStr s) = (case float_of_str rt s of None \<Rightarrow> Inl ValueError | Some f \<Rightarrow> Inr f)"
| "py_float rt (JList xs) = Inl TypeError"
| "py_float rt (JDict d) = Inl TypeError"

text \<open>\<open>sorted(xs, key=key, reverse=True)\<close>: CPython reverses the list, sorts it stably in
  ascending order and reverses the result.\<close>

definition sorted_reverse :: "('a \<Rightarrow> real) \<Rightarrow> 'a list \<Rightarrow> 'a list" where
  "sorted_reverse key xs = rev (sort_key key (rev xs))"

text \<open>\<open>xs[:k]\<close>: a negative \<open>k\<close> counts from the end.\<close>

definition slice_to :: "'a list \<Rightarrow> int \<Rightarrow> 'a list" where
  "slice_to xs k = (if 0 \<le> k then take (nat k) xs else take (nat (int (length xs) + k)) xs)"

text \<open>A \<open>for\<close> loop whose body updates a state and may raise: the first exception ends it.\<close>

fun for_loop :: "('s \<Rightarrow> 'a \<Rightarrow> exc + 's) \<Rightarrow> 'a list \<Rightarrow> 's \<Rightarrow> exc + 's" where
  "for_loop body [] s = Inr s"
| "for_loop body (x # xs) s =
     (case body s x of Inl e \<Rightarrow> Inl e | Inr s' \<Rightarrow> for_loop body xs s')"

section \<open>Schemas (\<open>schemas.py\<close>)\<close>

record WineCandidate =
  label :: string
  confidence :: real

text \<open>The constructor validates \<open>confidence\<close> against \<open>ge=0.0, le=1.0\<close>; NaN and the
  infinities fail the comparison.\<close>

fun new_WineCandidate :: "string \<Rightarrow> pyfloat \<Rightarrow> exc + WineCandidate" where
  "new_WineCandidate l (Finite r) =
     (if 0 \<le> r \<and> r \<le> 1 then Inr \<lparr>label = l, confidence = r\<rparr> else Inl ValidationError)"
| "new_WineCandidate l _ = Inl ValidationError"

record RecognizeResponse =
  request_id :: string
  top_candidates :: "WineCandidate list"
  candidate_count :: int
  elapsed_ms :: real
  raw_response :: "(string \<times> json) list option"

definition sort_by_confidence :: "WineCandidate list \<Rightarrow> WineCandidate list" where
  "sort_by_confidence candidates = sorted_reverse confidence candidates"

definition new_RecognizeResponse ::
  "string \<Rightarrow> WineCandidate list \<Rightarrow> int \<Rightarrow> real \<Rightarrow> (string \<times> json) list option
     \<Rightarrow> RecognizeResponse" where
  "new_RecognizeResponse rid cands n ms raw =
     \<lparr>request_id = rid, top_candidates = sort_by_confidence cands, candidate_count = n,
      elapsed_ms = ms, raw_response = raw\<rparr>"

section \<open>The normalizer (\<open>RapidAPIClient._parse_candidates\<close>)\<close>

text \<open>Lines 262-265: \<open>float(cls.get("score") or 0.0)\<close> under
  \<open>except (TypeError, ValueError)\<close>; any other exception leaves the handler.\<close>

definition coerce_score :: "runtime \<Rightarrow> json \<Rightarrow> exc + pyfloat" where
  "coerce_score rt score =
     (case py_float rt (py_or score (JFloat (Finite 0))) of
        Inl TypeError \<Rightarrow> Inr (Finite 0)
      | Inl ValueError \<Rightarrow> Inr (Finite 0)
      | Inl e \<Rightarrow> Inl e
      | Inr f \<Rightarrow> Inr f)"

text \<open>Lines 259-269, the body of \<open>for cls in classes\<close>.\<close>

definition class_body :: "runtime \<Rightarrow> WineCandidate list \<Rightarrow> json \<Rightarrow> exc + WineCandidate list" where
  "class_body rt candidates cls =
     (case cls of
        JDict d \<Rightarrow>
          (case str_strip (py_or (dict_get d ''class'' JNull) (JStr '''')) of
             Inl e \<Rightarrow> Inl e
           | Inr lbl \<Rightarrow>
               (case coerce_score rt (dict_get d ''score'' JNull) of
                  Inl e \<Rightarrow> Inl e
                | Inr conf \<Rightarrow>
                    if lbl \<noteq> [] then
                      (case new_WineCandidate lbl conf of
                         Inl e \<Rightarrow> Inl e
                       | Inr c \<Rightarrow> Inr (candidates @ [c]))
                    else Inr candidates))
      | _ \<Rightarrow> Inr candidates)"

text \<open>Lines 257-258, the body of \<open>for entity in entities\<close>.\<close>

definition entity_body :: "runtime \<Rightarrow> WineCandidate list \<Rightarrow> json \<Rightarrow> exc + WineCandidate list" where
  "entity_body rt candidates entity =
     (case attr_get entity ''classes'' (JList []) of
        Inl e \<Rightarrow> Inl e
      | Inr classes \<Rightarrow>
          (case py_iter classes of
             Inl e \<Rightarrow> Inl e
           | Inr cs \<Rightarrow> for_loop (class_body rt) cs candidates))"

text \<open>Lines 250-256, the body of \<open>for result in results\<close>.\<close>

definition result_body :: "runtime \<Rightarrow> WineCandidate list \<Rightarrow> json \<Rightarrow> exc + WineCandidate list" where
  "result_body rt candidates result =
     (case attr_get result ''status'' (JDict []) of
        Inl e \<Rightarrow> Inl e
      | Inr status \<Rightarrow>
          (case attr_get status ''code'' (JStr '''') of
             Inl e \<Rightarrow> Inl e
           | Inr code \<Rightarrow>
               (case str_lower code of
                  Inl e \<Rightarrow> Inl e
                | Inr lc \<Rightarrow>
                    if lc \<notin> set [''ok'', ''success'', ''''] then Inr candidates
                    else
                      (case attr_get result ''entities'' (JList []) of
                         Inl e \<Rightarrow> Inl e
                       | Inr entities \<Rightarrow>
                           (case py_iter entities of
                              Inl e \<Rightarrow> Inl e
                            | Inr es \<Rightarrow> for_loop (entity_body rt) es candidates)))))"

text \<open>Lines 245-248: the candidates in the order the loops append them.\<close>

definition collect_candidates :: "runtime \<Rightarrow> (string \<times> json) list \<Rightarrow> exc + WineCandidate list" where
  "collect_candidates rt raw =
     (case py_iter (dict_get raw ''results'' (JList [])) of
        Inl e \<Rightarrow> Inl e
      | Inr results \<Rightarrow> for_loop (result_body rt) results [])"

definition parse_candidates :: "runtime \<Rightarrow> (string \<times> json) list \<Rightarrow> exc + WineCandidate list" where
  "parse_candidates rt raw =
     (case collect_candidates rt raw of
        Inl e \<Rightarrow> Inl e
      | Inr candidates \<Rightarrow> Inr (sorted_reverse confidence candidates))"

section \<open>Settings (\<open>config.py\<close>)\<close>

text \<open>The fields the recognition path reads. The per-request timeout acts through the
  \<open>TimeoutException\<close> outcome of an attempt.\<close>

record Settings =
  rapidapi_key :: string
  rapidapi_host :: string
  rapidapi_base_url :: string
  rapidapi_results_path :: string
  http_max_retries :: int
  max_file_size_bytes :: int
  allowed_content_types :: "string set"
  allowed_extensions :: "string set"
  max_top_k :: int
  results_dir :: string

definition rapidapi_configured :: "Settings \<Rightarrow> bool" where
  "rapidapi_configured settings = (rapidapi_key settings \<noteq> [] \<and> rapidapi_host settings \<noteq> [])"

section \<open>The dispatcher (\<open>RapidAPIClient._call_with_retry\<close>)\<close>

definition RETRYABLE_STATUS_CODES :: "int set" where
  "RETRYABLE_STATUS_CODES = {429, 500, 502, 503, 504}"

type_synonym call_result = "WineCandidate list \<times> (string \<times> json) list \<times> real"

text \<open>Line 234, reached when the loop ends or breaks.\<close>

definition after_loop :: "exc option \<Rightarrow> exc" where
  "after_loop last_exc = (case last_exc of Some e \<Rightarrow> e | None \<Rightarrow> RapidAPIError RetriesExhausted None)"

text \<open>
  Lines 171-232: \<open>for attempt in range(1, attempts + 1)\<close>, entered at \<open>attempt\<close> with the
  \<open>last_exc\<close> so far. \<open>request_fn n\<close> is what the n-th call of \<open>request_fn(client)\<close> does.
  The last argument counts the calls made; the loop returns the count with the result.
\<close>

function retry_loop ::
  "runtime \<Rightarrow> (int \<Rightarrow> outcome) \<Rightarrow> int \<Rightarrow> int \<Rightarrow> exc option \<Rightarrow> nat \<Rightarrow> nat \<times> (exc + call_result)" where
  "retry_loop rt request_fn attempts attempt last_exc calls =
     (if attempts < attempt then (calls, Inl (after_loop last_exc))
      else
        (case request_fn attempt of
           Response status_code body text ms \<Rightarrow>
             if status_code = 200 then
               (case body of
                  None \<Rightarrow> (Suc calls, Inl (RapidAPIError InvalidJSON None))
                | Some (JDict raw) \<Rightarrow>
                    (case parse_candidates rt raw of
                       Inl e \<Rightarrow> (Suc calls, Inl e)
                     | Inr candidates \<Rightarrow> (Suc calls, Inr (candidates, raw, ms)))
                | Some _ \<Rightarrow> (Suc calls, Inl (RapidAPIError NotJSONObject None)))
             else if status_code \<in> RETRYABLE_STATUS_CODES \<and> attempt < attempts then
               retry_loop rt request_fn attempts (attempt + 1)
                 (Some (RapidAPIError (RetryableStatus status_code) (Some status_code))) (Suc calls)
             else (Suc calls, Inl (RapidAPIError (HTTPStatus status_code text) (Some status_code)))
         | TimeoutException ms \<Rightarrow>
             if attempt = attempts
             then (Suc calls, Inl (after_loop (Some (RapidAPIError (TimedOut ms) None))))
             else retry_loop rt request_fn attempts (attempt + 1)
                    (Some (RapidAPIError (TimedOut ms) None)) (Suc calls)
         | RequestError msg \<Rightarrow>
             if attempt = attempts
             then (Suc calls, Inl (after_loop (Some (RapidAPIError (RequestFailed msg) None))))
             else retry_loop rt request_fn attempts (attempt + 1)
                    (Some (RapidAPIError (RequestFailed msg) None)) (Suc calls)
         | OtherException \<Rightarrow> (Suc calls, Inl UncaughtError)))"
  by pat_completeness auto
termination
  by (relation "measure (\<lambda>(rt, request_fn, attempts, attempt, last_exc, calls).
        nat (attempts + 1 - attempt))") auto

declare retry_loop.simps [simp del]

definition call_with_retry ::
  "runtime \<Rightarrow> Settings \<Rightarrow> (int \<Rightarrow> outcome) \<Rightarrow> nat \<times> (exc + call_result)" where
  "call_with_retry rt settings request_fn =
     retry_loop rt request_fn (http_max_retries settings + 1) 1 None 0"

text \<open>\<open>RapidAPIClient.recognize_file\<close> and \<open>RapidAPIClient.recognize_url\<close>: the request each
  builds, sent through \<open>_call_with_retry\<close>. The \<open>request_id\<close> only feeds the log lines.\<close>

definition client_recognize_file ::
  "runtime \<Rightarrow> Settings \<Rightarrow> string \<Rightarrow> string \<Rightarrow> string \<Rightarrow> nat \<times> (exc + call_result)" where
  "client_recognize_file rt settings image_bytes fname ctype =
     call_with_retry rt settings
       (post rt (PostFiles (rapidapi_base_url settings @ rapidapi_results_path settings)
          (rapidapi_key settings, rapidapi_host settings) fname image_bytes ctype))"

definition client_recognize_url ::
  "runtime \<Rightarrow> Settings \<Rightarrow> string \<Rightarrow> nat \<times> (exc + call_result)" where
  "client_recognize_url rt settings image_url =
     call_with_retry rt settings
       (post rt (PostData (rapidapi_base_url settings @ rapidapi_results_path settings)
          (rapidapi_key settings, rapidapi_host settings) image_url))"

subsection \<open>The policy in the spec's words\<close>

text \<open>
  The words of the spec's dispatcher policy (section 4.2), for stating what the loop does:
  an attempt fails retryably when its status is one of the retryable codes or the transport
  raises a timeout or a connection error; the error an attempt is reported with carries the
  attempt's own status code, elapsed time or transport message.
\<close>

fun retryable_failure :: "outcome \<Rightarrow> bool" where
  "retryable_failure (Response status_code body text ms) = (status_code \<in> RETRYABLE_STATUS_CODES)"
| "retryable_failure (TimeoutException ms) = True"
| "retryable_failure (RequestError msg) = True"
| "retryable_failure OtherException = False"

fun attempt_error :: "outcome \<Rightarrow> exc" where
  "attempt_error (Response status_code body text ms) =
     RapidAPIError (HTTPStatus status_code text) (Some status_code)"
| "attempt_error (TimeoutException ms) = RapidAPIError (TimedOut ms) None"
| "attempt_error (RequestError msg) = RapidAPIError (RequestFailed msg) None"
| "attempt_error OtherException = UncaughtError"

section \<open>The endpoints (\<open>api.py\<close>)\<close>

record UploadFile =
  filename :: "string option"
  content_type :: "string option"
  contents :: string

text \<open>\<open>x or d\<close> on an optional str: \<open>None\<close> and the empty str are falsy.\<close>

definition str_or :: "string option \<Rightarrow> string \<Rightarrow> string" where
  "str_or x d = (case x of None \<Rightarrow> d | Some s \<Rightarrow> if s \<noteq> [] then s else d)"

text \<open>The saved results: the path of each file written, with the response dumped into it.\<close>

type_synonym filesystem = "string \<rightharpoonup> RecognizeResponse"

text \<open>\<open>top_k: Annotated[int, Query(ge=1, le=10)] = 5\<close>: FastAPI rejects a value outside
  the bounds before the endpoint runs; an omitted parameter takes the default.\<close>

definition query_top_k :: "int option \<Rightarrow> exc + int" where
  "query_top_k top_k =
     (case top_k of
        None \<Rightarrow> Inr 5
      | Some k \<Rightarrow> if 1 \<le> k \<and> k \<le> 10 then Inr k else Inl RequestValidationError)"

definition validate_upload_file :: "runtime \<Rightarrow> UploadFile \<Rightarrow> Settings \<Rightarrow> exc option" where
  "validate_upload_file rt file settings =
     (if (case content_type file of
            None \<Rightarrow> False
          | Some ct \<Rightarrow> ct \<noteq> [] \<and> ct \<notin> allowed_content_types settings)
      then Some (HTTPException 422)
      else if lower (path_suffix rt (str_or (filename file) []))
                \<notin> allowed_extensions settings
      then Some (HTTPException 422)
      else None)"

text \<open>A write that fails raises OSError, which the function catches and logs.\<close>

definition save_result_to_file ::
  "runtime \<Rightarrow> RecognizeResponse \<Rightarrow> Settings \<Rightarrow> filesystem \<Rightarrow> filesystem" where
  "save_result_to_file rt response settings fs =
     (if results_dir settings = [] \<or> strip (results_dir settings) = [] then fs
      else if os_write_ok rt (strip (results_dir settings) @ ''/'' @ request_id response @ ''.json'')
      then fs(strip (results_dir settings) @ ''/'' @ request_id response @ ''.json'' \<mapsto> response)
      else fs)"

text \<open>Lines 157-167 and 226-236: a \<open>RapidAPIError\<close> becomes HTTP 502; any other exception
  passes through the handler.\<close>

fun upstream_error :: "exc \<Rightarrow> exc" where
  "upstream_error (RapidAPIError k sc) = HTTPException 502"
| "upstream_error e = e"

text \<open>Lines 169-187 of \<open>recognize_file\<close>, repeated as lines 238-256 of \<open>recognize_url\<close>.\<close>

definition respond ::
  "runtime \<Rightarrow> Settings \<Rightarrow> int \<Rightarrow> bool \<Rightarrow> call_result \<Rightarrow> filesystem
     \<Rightarrow> filesystem \<times> (exc + RecognizeResponse)" where
  "respond rt settings top_k include_raw r fs =
     (case r of (candidates, raw, ms) \<Rightarrow>
        (save_result_to_file rt
           (new_RecognizeResponse (uuid4 rt)
              (slice_to candidates (min top_k (max_top_k settings)))
              (int (length (slice_to candidates (min top_k (max_top_k settings)))))
              (round2 rt ms) (if include_raw then Some raw else None))
           settings fs,
         Inr (new_RecognizeResponse (uuid4 rt)
              (slice_to candidates (min top_k (max_top_k settings)))
              (int (length (slice_to candidates (min top_k (max_top_k settings)))))
              (round2 rt ms) (if include_raw then Some raw else None))))"

text \<open>
  An endpoint returns the saved results, the number of upstream requests it made, and the
  response or the exception that leaves it. FastAPI resolves the dependency \<open>_get_client\<close>
  (HTTP 503 without credentials) before it validates the query parameters.
\<close>

definition recognize_file ::
  "runtime \<Rightarrow> Settings \<Rightarrow> UploadFile \<Rightarrow> int option \<Rightarrow> bool \<Rightarrow> filesystem
     \<Rightarrow> filesystem \<times> nat \<times> (exc + RecognizeResponse)" where
  "recognize_file rt settings file top_k include_raw fs =
     (if \<not> rapidapi_configured settings then (fs, 0, Inl (HTTPException 503))
      else
        (case query_top_k top_k of
           Inl e \<Rightarrow> (fs, 0, Inl e)
         | Inr k \<Rightarrow>
             (case validate_upload_file rt file settings of
                Some e \<Rightarrow> (fs, 0, Inl e)
              | None \<Rightarrow>
                  if max_file_size_bytes settings < int (length (contents file))
                  then (fs, 0, Inl (HTTPException 422))
                  else if length (contents file) = 0 then (fs, 0, Inl (HTTPException 422))
                  else
                    (case client_recognize_file rt settings (contents file)
                            (str_or (filename file) ''image.jpg'')
                            (str_or (content_type file) ''image/jpeg'') of
                       (calls, Inl e) \<Rightarrow> (fs, calls, Inl (upstream_error e))
                     | (calls, Inr r) \<Rightarrow>
                         (fst (respond rt settings k include_raw r fs), calls,
                          snd (respond rt settings k include_raw r fs))))))"

definition recognize_url ::
  "runtime \<Rightarrow> Settings \<Rightarrow> string \<Rightarrow> int option \<Rightarrow> bool \<Rightarrow> filesystem
     \<Rightarrow> filesystem \<times> nat \<times> (exc + RecognizeResponse)" where
  "recognize_url rt settings image_url top_k include_raw fs =
     (if \<not> rapidapi_configured settings then (fs, 0, Inl (HTTPException 503))
      else
        (case query_top_k top_k of
           Inl e \<Rightarrow> (fs, 0, Inl e)
         | Inr k \<Rightarrow>
             (case client_recognize_url rt settings image_url of
                (calls, Inl e) \<Rightarrow> (fs, calls, Inl (upstream_error e))
              | (calls, Inr r) \<Rightarrow>
                  (fst (respond rt settings k include_raw r fs), calls,
                   snd (respond rt settings k include_raw r fs)))))"

section \<open>The well-formed envelope in the spec's words\<close>

text \<open>
  The envelope of the spec's data model (section 3), for stating when the normalizer returns:
  \<open>results\<close> and \<open>entities\<close> are absent or lists of objects, a \<open>status\<close> is absent or an
  object whose \<open>code\<close> is absent or a str, \<open>classes\<close> is absent, a list, a mapping or a str,
  the \<open>class\<close> of an object among the classes is absent, falsy or a str, and its \<open>score\<close>,
  where it is a number or a str that reads as one, lies in \<open>[0, 1]\<close>. Under a blank label
  any score will do but an int too large for a float.
\<close>

fun score_ok :: "runtime \<Rightarrow> json \<Rightarrow> bool" where
  "score_ok rt JNull = True"
| "score_ok rt (JBool b) = True"
| "score_ok rt (JInt i) = (0 \<le> i \<and> i \<le> 1)"
| "score_ok rt (JFloat (Finite r)) = (0 \<le> r \<and> r \<le> 1)"
| "score_ok rt (JFloat f) = False"
| "score_ok rt (JStr s) =
     (s = [] \<or> (case float_of_str rt s of
                  None \<Rightarrow> True
                | Some (Finite r) \<Rightarrow> 0 \<le> r \<and> r \<le> 1
                | Some f \<Rightarrow> False))"
| "score_ok rt (JList xs) = True"
| "score_ok rt (JDict d) = True"

fun blank_label :: "json \<Rightarrow> bool" where
  "blank_label (JStr s) = (strip s = [])"
| "blank_label v = (\<not> truthy v)"

fun label_ok :: "json \<Rightarrow> bool" where
  "label_ok (JStr s) = True"
| "label_ok v = (\<not> truthy v)"

fun no_overflow :: "json \<Rightarrow> bool" where
  "no_overflow (JInt i) = (\<bar>i\<bar> < float_overflow_bound)"
| "no_overflow v = True"

fun class_ok :: "runtime \<Rightarrow> json \<Rightarrow> bool" where
  "class_ok rt (JDict d) =
     (label_ok (dict_get d ''class'' JNull)
      \<and> (score_ok rt (dict_get d ''score'' JNull)
          \<or> (blank_label (dict_get d ''class'' JNull) \<and> no_overflow (dict_get d ''score'' JNull))))"
| "class_ok rt v = True"

fun classes_ok :: "runtime \<Rightarrow> json \<Rightarrow> bool" where
  "classes_ok rt (JList cs) = list_all (class_ok rt) cs"
| "classes_ok rt (JDict d) = True"
| "classes_ok rt (JStr s) = True"
| "classes_ok rt v = False"

fun entity_ok :: "runtime \<Rightarrow> json \<Rightarrow> bool" where
  "entity_ok rt (JDict d) = classes_ok rt (dict_get d ''classes'' (JList []))"
| "entity_ok rt v = False"

fun entities_ok :: "runtime \<Rightarrow> json \<Rightarrow> bool" where
  "entities_ok rt (JList es) = list_all (entity_ok rt) es"
| "entities_ok rt v = False"

fun code_ok :: "runtime \<Rightarrow> (string \<times> json) list \<Rightarrow> json \<Rightarrow> bool" where
  "code_ok rt d (JStr c) =
     (lower c \<notin> {''ok'', ''success'', ''''} \<or> entities_ok rt (dict_get d ''entities'' (JList [])))"
| "code_ok rt d v = False"

fun status_ok :: "runtime \<Rightarrow> (string \<times> json) list \<Rightarrow> json \<Rightarrow> bool" where
  "status_ok rt d (JDict st) = code_ok rt d (dict_get st ''code'' (JStr ''''))"
| "status_ok rt d v = False"

fun result_ok :: "runtime \<Rightarrow> json \<Rightarrow> bool" where
  "result_ok rt (JDict d) = status_ok rt d (dict_get d ''status'' (JDict []))"
| "result_ok rt v = False"

fun results_ok :: "runtime \<Rightarrow> json \<Rightarrow> bool" where
  "results_ok rt (JList rs) = list_all (result_ok rt) rs"
| "results_ok rt v = False"

definition envelope_ok :: "runtime \<Rightarrow> (string \<times> json) list \<Rightarrow> bool" where
  "envelope_ok rt raw = results_ok rt (dict_get raw ''results'' (JList []))"

definition valid_candidate :: "WineCandidate \<Rightarrow> bool" where
  "valid_candidate c = (label c \<noteq> [] \<and> 0 \<le> confidence c \<and> confidence c \<le> 1)"

section \<open>Fixtures (\<open>tests/test_api.py\<close>)\<close>

text \<open>The envelope the unit tests build: one result with status \<open>ok\<close> and one entity
  with the given \<open>classes\<close>.\<close>

definition envelope_of_classes :: "json \<Rightarrow> (string \<times> json) list" where
  "envelope_of_classes classes =
     [(''results'', JList [JDict [(''status'', JDict [(''code'', JStr ''ok'')]),
        (''entities'', JList [JDict [(''kind'', JStr ''wine''), (''classes'', classes)]])]])]"

text \<open>\<open>_MOCK_API_RESPONSE\<close>, its labels in ASCII.\<close>

definition MOCK_API_RESPONSE :: "(string \<times> json) list" where
  "MOCK_API_RESPONSE = envelope_of_classes (JList
     [JDict [(''class'', JStr ''Chateau Margaux 2015''), (''score'', JFloat (Finite 0.92))],
      JDict [(''class'', JStr ''Chateau Latour 2016''), (''score'', JFloat (Finite 0.75))],
      JDict [(''class'', JStr ''Penfolds Grange 2018''), (''score'', JFloat (Finite 0.61))]])"

text \<open>The suffix of a plain file name, as \<open>pathlib\<close> gives it: the text from the last dot,
  when that dot is neither the first nor the last character.\<close>

definition plain_suffix :: "string \<Rightarrow> string" where
  "plain_suffix name =
     (if CHR ''.'' \<in> set name \<and> takeWhile (\<lambda>c. c \<noteq> CHR ''.'') (rev name) \<noteq> []
         \<and> Suc (length (takeWhile (\<lambda>c. c \<noteq> CHR ''.'') (rev name))) < length name
      then CHR ''.'' # rev (takeWhile (\<lambda>c. c \<noteq> CHR ''.'') (rev name))
      else [])"

text \<open>A runtime whose upstream gives the scripted answers, as \<open>_mock_httpx_response\<close> does.
  The fixtures hold no str score and no elapsed time with more than two decimals.\<close>

definition mock_runtime :: "(int \<Rightarrow> outcome) \<Rightarrow> runtime" where
  "mock_runtime answers =
     \<lparr>float_of_str = (\<lambda>s. None), path_suffix = plain_suffix, round2 = (\<lambda>x. x),
      post = (\<lambda>req. answers), uuid4 = ''request-1'', os_write_ok = (\<lambda>p. True)\<rparr>"

text \<open>\<open>_make_settings()\<close>: the defaults of \<open>config.py\<close> with the test credentials.\<close>

definition test_settings :: Settings where
  "test_settings =
     \<lparr>rapidapi_key = ''test-key-123'', rapidapi_host = ''wine-recognition2.p.rapidapi.com'',
      rapidapi_base_url = ''https://wine-recognition2.p.rapidapi.com'',
      rapidapi_results_path = ''/v1/results'', http_max_retries = 1,
      max_file_size_bytes = 10 * 1024 * 1024,
      allowed_content_types = {''image/jpeg'', ''image/png'', ''image/webp''},
      allowed_extensions = {''.jpg'', ''.jpeg'', ''.png'', ''.webp''},
      max_top_k = 10, results_dir = ''results''\<rparr>"

text \<open>An envelope with two candidates of equal confidence around a higher one.\<close>

definition TIED_RESPONSE :: "(string \<times> json) list" where
  "TIED_RESPONSE = envelope_of_classes (JList
     [JDict [(''class'', JStr ''A''), (''score'', JFloat (Finite 0.5))],
      JDict [(''class'', JStr ''B''), (''score'', JFloat (Finite 0.9))],
      JDict [(''class'', JStr ''C''), (''score'', JFloat (Finite 0.5))]])"

text \<open>The upstreams of the endpoint tests: status 200 with \<open>_MOCK_API_RESPONSE\<close> on every
  attempt, and a timeout on every attempt.\<close>

definition mock_upstream_ok :: "int \<Rightarrow> outcome" where
  "mock_upstream_ok n = Response 200 (Some (JDict MOCK_API_RESPONSE)) ''mock body'' 12.5"

definition mock_upstream_timeout :: "int \<Rightarrow> outcome" where
  "mock_upstream_timeout n = TimeoutException 10000"

definition label_png :: UploadFile where
  "label_png = \<lparr>filename = Some ''label.png'', content_type = Some ''image/png'', contents = ''PNG''\<rparr>"

definition mock_top2 :: RecognizeResponse where
  "mock_top2 =
     \<lparr>request_id = ''request-1'',
      top_candidates = [\<lparr>label = ''Chateau Margaux 2015'', confidence = 0.92\<rparr>,
                        \<lparr>label = ''Chateau Latour 2016'', confidence = 0.75\<rparr>],
      candidate_count = 2, elapsed_ms = 12.5, raw_response = None\<rparr>"

section \<open>Sorting and loops\<close>

lemma sorted_reverse_descending:
  "sorted_wrt (\<lambda>a b. key b \<le> key a) (sorted_reverse key xs)"
proof -
  have "sorted (map key (sort_key key (rev xs)))"
    by (rule sorted_sort_key)
  then have "sorted_wrt (\<lambda>a b. key a \<le> key b) (sort_key key (rev xs))"
    by (simp add: sorted_map)
  then show ?thesis
    by (simp add: sorted_reverse_def sorted_wrt_rev)
qed

lemma sorted_reverse_stable:
  "filter (\<lambda>c. key c = k) (sorted_reverse key xs) = filter (\<lambda>c. key c = k) xs"
proof -
  have "filter (\<lambda>c. key c = k) (rev (sort_key key (rev xs)))
      = rev (filter (\<lambda>c. key c = k) (sort_key key (rev xs)))"
    by (simp add: rev_filter)
  also have "\<dots> = rev (filter (\<lambda>c. key c = k) (rev xs))"
    by (simp only: sort_key_stable)
  also have "\<dots> = filter (\<lambda>c. key c = k) xs"
    by (simp add: rev_filter)
  finally show ?thesis
    by (simp add: sorted_reverse_def)
qed

lemma mset_sorted_reverse: "mset (sorted_reverse key xs) = mset xs"
  by (simp add: sorted_reverse_def)

lemma length_sorted_reverse: "length (sorted_reverse key xs) = length xs"
  by (simp add: sorted_reverse_def)

lemma sorted_reverse_id:
  assumes "sorted_wrt (\<lambda>a b. key b \<le> key a) xs"
  shows "sorted_reverse key xs = xs"
proof -
  from assms have "sorted_wrt (\<lambda>a b. key a \<le> key b) (rev xs)"
    by (simp add: sorted_wrt_rev)
  then have "sorted (map key (rev xs))"
    by (simp add: sorted_map)
  then have "sort_key key (rev xs) = rev xs"
    by (rule sort_key_id_if_sorted)
  then show ?thesis
    by (simp add: sorted_reverse_def)
qed

lemma for_loop_append:
  "for_loop body (xs @ ys) s =
     (case for_loop body xs s of Inl e \<Rightarrow> Inl e | Inr s' \<Rightarrow> for_loop body ys s')"
  by (induction xs arbitrary: s) (auto split: sum.splits)

lemmas normalizer_defs =
  parse_candidates_def collect_candidates_def result_body_def entity_body_def class_body_def
  coerce_score_def dict_get_def py_or_def sorted_reverse_def envelope_of_classes_def
  lower_def char_lower_def strip_def isspace_def

section \<open>The normalizer: the shape of \<open>classes\<close> and the status gate\<close>

text \<open>The loop \<open>for cls in classes\<close> over a mapping visits its keys, which are strs, and
  line 259 skips each: an entity whose \<open>classes\<close> is a mapping adds no candidate.\<close>

lemma for_loop_class_body_keys:
  "for_loop (class_body rt) (map (\<lambda>kv. JStr (fst kv)) d) candidates = Inr candidates"
  by (induction d) (simp_all add: class_body_def)

lemma entity_body_mapping_classes:
  assumes "map_of entity ''classes'' = Some (JDict d)"
  shows "entity_body rt candidates (JDict entity) = Inr candidates"
  using assms by (simp add: entity_body_def dict_get_def for_loop_class_body_keys)

text \<open>
  C1. The claim: an entity whose \<open>classes\<close> is a mapping from labels to scores yields the
  candidates of the equivalent list of \<open>{class, score}\<close> objects, so that the mapping
  \<open>{"X": 0.5, "Y": 0.8}\<close> yields \<open>[("Y", 0.8), ("X", 0.5)]\<close>. The code does not: on
  that mapping the normalizer returns no candidate, while the list of objects with the same
  pairs gives the two candidates in descending order.
\<close>

theorem parse_candidates_mapping_classes_dropped:
  "parse_candidates rt (envelope_of_classes
      (JDict [(''X'', JFloat (Finite 0.5)), (''Y'', JFloat (Finite 0.8))])) = Inr []
   \<and> parse_candidates rt (envelope_of_classes
      (JList [JDict [(''class'', JStr ''X''), (''score'', JFloat (Finite 0.5))],
              JDict [(''class'', JStr ''Y''), (''score'', JFloat (Finite 0.8))]]))
     = Inr [\<lparr>label = ''Y'', confidence = 0.8\<rparr>, \<lparr>label = ''X'', confidence = 0.5\<rparr>]"
  by (simp add: normalizer_defs)

lemma result_body_skipped:
  assumes "map_of res ''status'' = Some (JDict st)"
    and "map_of st ''code'' = Some (JStr c)"
    and "lower c \<notin> {''ok'', ''success'', ''''}"
  shows "result_body rt candidates (JDict res) = Inr candidates"
  using assms by (simp add: result_body_def dict_get_def)

lemma result_body_processed:
  assumes "map_of res ''status'' = None \<or>
           (map_of res ''status'' = Some (JDict st) \<and>
              (map_of st ''code'' = None \<or> map_of st ''code'' = Some (JStr '''')))"
  shows "result_body rt candidates (JDict res) =
           (case py_iter (dict_get res ''entities'' (JList [])) of
              Inl e \<Rightarrow> Inl e
            | Inr es \<Rightarrow> for_loop (entity_body rt) es candidates)"
  using assms by (auto simp add: result_body_def dict_get_def lower_def)

lemma for_loop_skip:
  assumes "\<And>s. body s r = Inr s"
  shows "for_loop body (before @ r # after) s = for_loop body (before @ after) s"
  using assms by (simp add: for_loop_append split: sum.splits)

text \<open>
  C9. A result whose \<open>status.code\<close> is a str that, in lower case, is none of \<open>ok\<close>,
  \<open>success\<close> and the empty str adds no candidate: the loop body leaves the candidates as
  they are, and the loop over the results runs as if the result were not in the list. A
  result with no \<open>status\<close>, no \<open>code\<close> or an empty \<open>code\<close> is processed: its body is the
  loop over its \<open>entities\<close>.
\<close>

theorem result_status_code_gate:
  "(map_of res ''status'' = Some (JDict st) \<and> map_of st ''code'' = Some (JStr c)
      \<and> lower c \<notin> {''ok'', ''success'', ''''}
    \<longrightarrow> result_body rt candidates (JDict res) = Inr candidates
        \<and> for_loop (result_body rt) (before @ JDict res # after) candidates
          = for_loop (result_body rt) (before @ after) candidates)
   \<and> (map_of res ''status'' = None
        \<or> (map_of res ''status'' = Some (JDict st)
            \<and> (map_of st ''code'' = None \<or> map_of st ''code'' = Some (JStr '''')))
    \<longrightarrow> result_body rt candidates (JDict res) =
          (case py_iter (dict_get res ''entities'' (JList [])) of
             Inl e \<Rightarrow> Inl e
           | Inr es \<Rightarrow> for_loop (entity_body rt) es candidates))"
proof (intro conjI impI)
  assume skipped: "map_of res ''status'' = Some (JDict st) \<and> map_of st ''code'' = Some (JStr c)
      \<and> lower c \<notin> {''ok'', ''success'', ''''}"
  then have same: "result_body rt s (JDict res) = Inr s" for s
    by (simp add: result_body_skipped)
  show "result_body rt candidates (JDict res) = Inr candidates"
    by (rule same)
  show "for_loop (result_body rt) (before @ JDict res # after) candidates
          = for_loop (result_body rt) (before @ after) candidates"
    by (rule for_loop_skip) (rule same)
next
  assume "map_of res ''status'' = None
        \<or> (map_of res ''status'' = Some (JDict st)
            \<and> (map_of st ''code'' = None \<or> map_of st ''code'' = Some (JStr '''')))"
  then show "result_body rt candidates (JDict res) =
          (case py_iter (dict_get res ''entities'' (JList [])) of
             Inl e \<Rightarrow> Inl e
           | Inr es \<Rightarrow> for_loop (entity_body rt) es candidates)"
    by (rule result_body_processed)
qed

text \<open>The gate at the result of \<open>test_skips_error_status_results\<close> (status \<open>error\<close>, skipped
  among the results of the envelope) and at the same result without its \<open>status\<close>
  (processed).\<close>

theorem result_status_code_gate_witness:
  "lower ''error'' \<notin> {''ok'', ''success'', ''''}
   \<and> result_body (mock_runtime (\<lambda>n. OtherException)) []
        (JDict [(''status'', JDict [(''code'', JStr ''error''), (''message'', JStr ''recognition failed'')]),
                (''entities'', JList [JDict [(''kind'', JStr ''wine''),
                   (''classes'', JList [JDict [(''class'', JStr ''Some Wine''), (''score'', JFloat (Finite 0.9))]])]])])
      = Inr []
   \<and> for_loop (result_body (mock_runtime (\<lambda>n. OtherException)))
        ([] @ JDict [(''status'', JDict [(''code'', JStr ''error''), (''message'', JStr ''recognition failed'')]),
                (''entities'', JList [JDict [(''kind'', JStr ''wine''),
                   (''classes'', JList [JDict [(''class'', JStr ''Some Wine''), (''score'', JFloat (Finite 0.9))]])]])]
           # []) []
      = for_loop (result_body (mock_runtime (\<lambda>n. OtherException))) ([] @ []) []
   \<and> result_body (mock_runtime (\<lambda>n. OtherException)) []
        (JDict [(''entities'', JList [JDict [(''kind'', JStr ''wine''),
                   (''classes'', JList [JDict [(''class'', JStr ''Some Wine''), (''score'', JFloat (Finite 0.9))]])]])])
      = Inr [\<lparr>label = ''Some Wine'', confidence = 0.9\<rparr>]"
  using result_status_code_gate
    [of "[(''status'', JDict [(''code'', JStr ''error''), (''message'', JStr ''recognition failed'')]),
          (''entities'', JList [JDict [(''kind'', JStr ''wine''),
             (''classes'', JList [JDict [(''class'', JStr ''Some Wine''), (''score'', JFloat (Finite 0.9))]])]])]"
        "[(''code'', JStr ''error''), (''message'', JStr ''recognition failed'')]"
        "''error''" "mock_runtime (\<lambda>n. OtherException)" "[]" "[]" "[]"]
    result_status_code_gate
    [of "[(''entities'', JList [JDict [(''kind'', JStr ''wine''),
             (''classes'', JList [JDict [(''class'', JStr ''Some Wine''), (''score'', JFloat (Finite 0.9))]])]])]"
        "[]" "[]" "mock_runtime (\<lambda>n. OtherException)" "[]" "[]" "[]"]
  by (simp add: normalizer_defs)

section \<open>The dispatcher: terminal and retryable failures\<close>

lemma not_200_retryable: "200 \<notin> RETRYABLE_STATUS_CODES"
  by (simp add: RETRYABLE_STATUS_CODES_def)

text \<open>An attempt that ends in a status neither 200 nor retryable ends the loop at once.\<close>

lemma retry_loop_terminal_status:
  assumes "request_fn attempt = Response status_code body text ms"
    and "status_code \<noteq> 200" and "status_code \<notin> RETRYABLE_STATUS_CODES"
    and "attempt \<le> attempts"
  shows "retry_loop rt request_fn attempts attempt last_exc calls =
           (Suc calls, Inl (RapidAPIError (HTTPStatus status_code text) (Some status_code)))"
  using assms by (subst retry_loop.simps) simp

text \<open>A retryable failure on the last attempt is reported with that attempt's error: a
  status through line 210, a timeout or a transport error through \<open>break\<close> and line 234.\<close>

lemma retry_loop_last_attempt:
  assumes "retryable_failure (request_fn attempts)"
  shows "retry_loop rt request_fn attempts attempts last_exc calls =
           (Suc calls, Inl (attempt_error (request_fn attempts)))"
  using assms
  by (subst retry_loop.simps)
     (auto simp add: after_loop_def not_200_retryable split: outcome.splits)

lemma retry_loop_retry:
  assumes "retryable_failure (request_fn attempt)" and "attempt < attempts"
  shows "\<exists>e. retry_loop rt request_fn attempts attempt last_exc calls =
           retry_loop rt request_fn attempts (attempt + 1) (Some e) (Suc calls)"
  using assms
  by (subst retry_loop.simps)
     (auto simp add: not_200_retryable split: outcome.splits)

text \<open>When every attempt from \<open>attempt\<close> on fails retryably, the loop makes all the
  remaining attempts and reports the last one.\<close>

lemma retry_loop_all_retryable:
  assumes "\<And>i. attempt \<le> i \<Longrightarrow> i \<le> attempts \<Longrightarrow> retryable_failure (request_fn i)"
    and "attempt \<le> attempts"
  shows "retry_loop rt request_fn attempts attempt last_exc calls =
           (calls + nat (attempts - attempt + 1), Inl (attempt_error (request_fn attempts)))"
  using assms
proof (induction "nat (attempts - attempt)" arbitrary: attempt last_exc calls)
  case 0
  then have "attempt = attempts" by simp
  with 0 show ?case by (simp add: retry_loop_last_attempt)
next
  case (Suc n)
  then have lt: "attempt < attempts" by simp
  have r: "retryable_failure (request_fn attempt)" using Suc.prems by simp
  obtain e where step: "retry_loop rt request_fn attempts attempt last_exc calls =
           retry_loop rt request_fn attempts (attempt + 1) (Some e) (Suc calls)"
    using retry_loop_retry [of request_fn attempt attempts rt last_exc calls] r lt by blast
  have "retry_loop rt request_fn attempts (attempt + 1) (Some e) (Suc calls) =
      (Suc calls + nat (attempts - (attempt + 1) + 1), Inl (attempt_error (request_fn attempts)))"
    using Suc.hyps(2) Suc.prems lt by (intro Suc.hyps(1)) auto
  with step lt show ?case by (simp add: nat_add_distrib)
qed

text \<open>
  C7. When the first attempt of a dispatch (one that makes a first attempt: \<open>max_retries\<close>
  is not negative) returns a status that is neither 200 nor one of 429, 500, 502, 503, 504,
  the dispatcher makes that one request and fails with the \<open>RapidAPIError\<close> of line 210,
  whose \<open>status_code\<close> is that status, whatever \<open>max_retries\<close> is.
\<close>

theorem terminal_status_fails_at_once:
  assumes "0 \<le> http_max_retries settings"
    and "request_fn 1 = Response status_code body text ms"
    and "status_code \<noteq> 200" and "status_code \<notin> RETRYABLE_STATUS_CODES"
  shows "call_with_retry rt settings request_fn =
           (1, Inl (RapidAPIError (HTTPStatus status_code text) (Some status_code)))"
  using assms by (simp add: call_with_retry_def retry_loop_terminal_status)

text \<open>The upstream of \<open>test_upstream_401_returns_502\<close>: status 401 on every attempt, one
  retry configured.\<close>

theorem terminal_status_fails_at_once_witness:
  "0 \<le> http_max_retries test_settings
   \<and> (401 :: int) \<noteq> 200 \<and> 401 \<notin> RETRYABLE_STATUS_CODES
   \<and> call_with_retry
        (mock_runtime (\<lambda>n. Response 401 (Some (JDict [(''message'', JStr ''Invalid API key'')]))
                              ''Invalid API key'' 12.5))
        test_settings
        (\<lambda>n. Response 401 (Some (JDict [(''message'', JStr ''Invalid API key'')]))
                ''Invalid API key'' 12.5)
      = (1, Inl (RapidAPIError (HTTPStatus 401 ''Invalid API key'') (Some 401)))"
  using terminal_status_fails_at_once
    [of test_settings
        "\<lambda>n. Response 401 (Some (JDict [(''message'', JStr ''Invalid API key'')]))
                ''Invalid API key'' 12.5"
        401 "Some (JDict [(''message'', JStr ''Invalid API key'')])"
        "''Invalid API key''" "12.5"
        "mock_runtime (\<lambda>n. Response 401 (Some (JDict [(''message'', JStr ''Invalid API key'')]))
                              ''Invalid API key'' 12.5)"]
  by (simp add: test_settings_def RETRYABLE_STATUS_CODES_def)

text \<open>
  C8. With \<open>max_retries = 1\<close>, when both attempts fail retryably (a status among 429, 500,
  502, 503, 504, a timeout or a connection error), the dispatcher makes exactly two requests
  and fails with the error of the second attempt.
\<close>

theorem two_retryable_failures_exhaust:
  assumes "http_max_retries settings = 1"
    and "retryable_failure (request_fn 1)" and "retryable_failure (request_fn 2)"
  shows "call_with_retry rt settings request_fn = (2, Inl (attempt_error (request_fn 2)))"
proof -
  have "retryable_failure (request_fn i)" if "1 \<le> i" "i \<le> 2" for i
  proof -
    from that have "i = 1 \<or> i = 2" by auto
    with assms show ?thesis by auto
  qed
  then have "retry_loop rt request_fn 2 1 None 0 =
      (0 + nat (2 - 1 + 1), Inl (attempt_error (request_fn 2)))"
    by (intro retry_loop_all_retryable) auto
  with assms(1) show ?thesis by (simp add: call_with_retry_def)
qed

text \<open>Status 503 on the first attempt and a timeout on the second: the timeout is what the
  caller sees.\<close>

theorem two_retryable_failures_exhaust_witness:
  "http_max_retries test_settings = 1
   \<and> retryable_failure (Response 503 None ''unavailable'' 3)
   \<and> retryable_failure (TimeoutException 10000)
   \<and> call_with_retry
        (mock_runtime (\<lambda>n. if n = 1 then Response 503 None ''unavailable'' 3 else TimeoutException 10000))
        test_settings
        (\<lambda>n. if n = 1 then Response 503 None ''unavailable'' 3 else TimeoutException 10000)
      = (2, Inl (RapidAPIError (TimedOut 10000) None))"
  using two_retryable_failures_exhaust
    [of test_settings
        "\<lambda>n. if n = 1 then Response 503 None ''unavailable'' 3 else TimeoutException 10000"
        "mock_runtime (\<lambda>n. if n = 1 then Response 503 None ''unavailable'' 3 else TimeoutException 10000)"]
  by (simp add: test_settings_def RETRYABLE_STATUS_CODES_def)

section \<open>The normalizer sorts; the dispatcher returns what the normalizer gave\<close>

lemma parse_candidates_descending:
  assumes "parse_candidates rt raw = Inr out"
  shows "sorted_wrt (\<lambda>a b. confidence b \<le> confidence a) out"
  using assms
  by (auto simp add: parse_candidates_def sorted_reverse_descending split: sum.splits)

lemma retry_loop_success:
  "retry_loop rt request_fn attempts attempt last_exc calls = (n, Inr (candidates, raw, ms))
     \<Longrightarrow> parse_candidates rt raw = Inr candidates"
proof (induction rt request_fn attempts attempt last_exc calls rule: retry_loop.induct)
  case (1 rt request_fn attempts attempt last_exc calls)
  note step = "1.prems" [unfolded retry_loop.simps [of rt request_fn attempts attempt last_exc calls]]
  with "1.IH" show ?case
    by (auto split: if_splits outcome.splits option.splits json.splits sum.splits)
qed

lemma call_with_retry_success:
  "call_with_retry rt settings request_fn = (n, Inr (candidates, raw, ms))
     \<Longrightarrow> parse_candidates rt raw = Inr candidates"
  by (simp add: call_with_retry_def retry_loop_success)

section \<open>The endpoints\<close>

lemma slice_to_take: "\<exists>j. slice_to xs k = take j xs"
  by (auto simp add: slice_to_def)

lemma slice_to_descending:
  assumes "sorted_wrt (\<lambda>a b. key b \<le> key a) xs"
  shows "sorted_wrt (\<lambda>a b. key b \<le> key a) (slice_to xs k)"
  using assms by (simp add: slice_to_def)

lemma length_slice_to:
  assumes "0 \<le> k"
  shows "int (length (slice_to xs k)) = min (int (length xs)) k"
  using assms by (auto simp add: slice_to_def)

text \<open>What \<open>respond\<close> builds from sorted candidates.\<close>

lemma respond_result:
  assumes "respond rt settings k include_raw (candidates, raw, ms) fs = (fs', res)"
  shows "\<exists>resp. res = Inr resp
           \<and> fs' = save_result_to_file rt resp settings fs
           \<and> request_id resp = uuid4 rt
           \<and> top_candidates resp = sort_by_confidence (slice_to candidates (min k (max_top_k settings)))
           \<and> candidate_count resp = int (length (slice_to candidates (min k (max_top_k settings))))"
  using assms by (auto simp add: respond_def new_RecognizeResponse_def)

lemma recognize_url_success:
  assumes "recognize_url rt settings image_url top_k include_raw fs = (fs', n, Inr resp)"
  shows "\<exists>k candidates raw ms.
           query_top_k top_k = Inr k
           \<and> client_recognize_url rt settings image_url = (n, Inr (candidates, raw, ms))
           \<and> respond rt settings k include_raw (candidates, raw, ms) fs = (fs', Inr resp)"
  using assms
  by (auto simp add: recognize_url_def prod_eq_iff split: if_splits sum.splits prod.splits)

lemma recognize_file_success:
  assumes "recognize_file rt settings file top_k include_raw fs = (fs', n, Inr resp)"
  shows "\<exists>k candidates raw ms.
           query_top_k top_k = Inr k
           \<and> client_recognize_file rt settings (contents file)
                (str_or (filename file) ''image.jpg'') (str_or (content_type file) ''image/jpeg'')
               = (n, Inr (candidates, raw, ms))
           \<and> respond rt settings k include_raw (candidates, raw, ms) fs = (fs', Inr resp)"
  using assms
  by (auto simp add: recognize_file_def prod_eq_iff split: if_splits sum.splits prod.splits option.splits)

lemma query_top_k_value:
  assumes "query_top_k top_k = Inr k"
  shows "k = (case top_k of None \<Rightarrow> 5 | Some j \<Rightarrow> j) \<and> 1 \<le> k \<and> k \<le> 10"
  using assms by (auto simp add: query_top_k_def split: option.splits if_splits)

text \<open>A response built from the output of the normalizer.\<close>

lemma respond_of_parsed:
  assumes "respond rt settings k include_raw (candidates, raw, ms) fs = (fs', Inr resp)"
    and "parse_candidates rt raw = Inr candidates"
  shows "top_candidates resp = slice_to candidates (min k (max_top_k settings))"
    and "candidate_count resp = int (length (top_candidates resp))"
    and "sorted_wrt (\<lambda>a b. confidence b \<le> confidence a) (top_candidates resp)"
proof -
  let ?top = "slice_to candidates (min k (max_top_k settings))"
  from assms(2) have "sorted_wrt (\<lambda>a b. confidence b \<le> confidence a) candidates"
    by (rule parse_candidates_descending)
  then have sorted_top: "sorted_wrt (\<lambda>a b. confidence b \<le> confidence a) ?top"
    by (rule slice_to_descending)
  then have "sort_by_confidence ?top = ?top"
    by (simp add: sort_by_confidence_def sorted_reverse_id)
  with respond_result [OF assms(1)]
  show top: "top_candidates resp = ?top" by auto
  from respond_result [OF assms(1)] top
  show "candidate_count resp = int (length (top_candidates resp))" by auto
  from top sorted_top
  show "sorted_wrt (\<lambda>a b. confidence b \<le> confidence a) (top_candidates resp)" by simp
qed

subsection \<open>The fixtures, run\<close>

lemmas endpoint_defs =
  recognize_url_def recognize_file_def client_recognize_url_def client_recognize_file_def
  call_with_retry_def retry_loop.simps query_top_k_def rapidapi_configured_def respond_def
  new_RecognizeResponse_def sort_by_confidence_def slice_to_def save_result_to_file_def
  validate_upload_file_def str_or_def plain_suffix_def after_loop_def
  mock_runtime_def test_settings_def MOCK_API_RESPONSE_def mock_upstream_ok_def
  mock_upstream_timeout_def label_png_def mock_top2_def RETRYABLE_STATUS_CODES_def
  lower_def char_lower_def

lemma mock_parse:
  "parse_candidates (mock_runtime f) MOCK_API_RESPONSE =
     Inr [\<lparr>label = ''Chateau Margaux 2015'', confidence = 0.92\<rparr>,
          \<lparr>label = ''Chateau Latour 2016'', confidence = 0.75\<rparr>,
          \<lparr>label = ''Penfolds Grange 2018'', confidence = 0.61\<rparr>]"
  by (simp add: normalizer_defs MOCK_API_RESPONSE_def)

lemma mock_url_run:
  "recognize_url (mock_runtime mock_upstream_ok) test_settings ''https://example.com/wine-label.jpg''
      (Some 2) False Map.empty
   = ([''results/request-1.json'' \<mapsto> mock_top2], 1, Inr mock_top2)"
  by (simp add: endpoint_defs normalizer_defs)

lemma mock_file_run:
  "recognize_file (mock_runtime mock_upstream_ok) test_settings label_png
      (Some 2) False Map.empty
   = ([''results/request-1.json'' \<mapsto> mock_top2], 1, Inr mock_top2)"
  by (simp add: endpoint_defs normalizer_defs)

subsection \<open>A successful request\<close>

lemma recognize_url_parsed:
  assumes "recognize_url rt settings image_url top_k include_raw fs = (fs', n, Inr resp)"
  shows "\<exists>k candidates raw ms.
           query_top_k top_k = Inr k
           \<and> client_recognize_url rt settings image_url = (n, Inr (candidates, raw, ms))
           \<and> parse_candidates rt raw = Inr candidates
           \<and> respond rt settings k include_raw (candidates, raw, ms) fs = (fs', Inr resp)"
proof -
  from recognize_url_success [OF assms] obtain k candidates raw ms where
    k: "query_top_k top_k = Inr k"
    and call: "client_recognize_url rt settings image_url = (n, Inr (candidates, raw, ms))"
    and resp: "respond rt settings k include_raw (candidates, raw, ms) fs = (fs', Inr resp)"
    by blast
  from call have "parse_candidates rt raw = Inr candidates"
    by (simp add: client_recognize_url_def call_with_retry_success)
  with k call resp show ?thesis by blast
qed

lemma recognize_file_parsed:
  assumes "recognize_file rt settings file top_k include_raw fs = (fs', n, Inr resp)"
  shows "\<exists>k candidates raw ms.
           query_top_k top_k = Inr k
           \<and> client_recognize_file rt settings (contents file)
                (str_or (filename file) ''image.jpg'') (str_or (content_type file) ''image/jpeg'')
               = (n, Inr (candidates, raw, ms))
           \<and> parse_candidates rt raw = Inr candidates
           \<and> respond rt settings k include_raw (candidates, raw, ms) fs = (fs', Inr resp)"
proof -
  from recognize_file_success [OF assms] obtain k candidates raw ms where
    k: "query_top_k top_k = Inr k"
    and call: "client_recognize_file rt settings (contents file)
                (str_or (filename file) ''image.jpg'') (str_or (content_type file) ''image/jpeg'')
               = (n, Inr (candidates, raw, ms))"
    and resp: "respond rt settings k include_raw (candidates, raw, ms) fs = (fs', Inr resp)"
    by blast
  from call have "parse_candidates rt raw = Inr candidates"
    by (simp add: client_recognize_file_def call_with_retry_success)
  with k call resp show ?thesis by blast
qed

text \<open>The length of the returned list under a limit that is not negative.\<close>

lemma respond_length:
  assumes "respond rt settings k include_raw (candidates, raw, ms) fs = (fs', Inr resp)"
    and "parse_candidates rt raw = Inr candidates"
    and "query_top_k top_k = Inr k" and "0 \<le> max_top_k settings"
  shows "int (length (top_candidates resp)) =
           min (int (length candidates))
               (min (case top_k of None \<Rightarrow> 5 | Some j \<Rightarrow> j) (max_top_k settings))"
proof -
  from query_top_k_value [OF assms(3)]
  have k: "k = (case top_k of None \<Rightarrow> 5 | Some j \<Rightarrow> j)" and "1 \<le> k" by simp_all
  with assms(4) have "0 \<le> min k (max_top_k settings)" by simp
  then have "int (length (slice_to candidates (min k (max_top_k settings)))) =
      min (int (length candidates)) (min k (max_top_k settings))"
    by (rule length_slice_to)
  with respond_of_parsed(1) [OF assms(1,2)] k show ?thesis by simp
qed

text \<open>
  C5. With a configured maximum \<open>max_top_k\<close> that is not negative, a request that succeeds
  returns at most \<open>min(N, max_top_k)\<close> candidates, where \<open>N\<close> is the limit the caller
  asked for (5 when the caller gave none), on the file endpoint and on the URL endpoint.
\<close>

theorem returned_candidates_within_limit:
  assumes "0 \<le> max_top_k settings"
  shows "(recognize_file rt settings file top_k include_raw fs = (fs', n, Inr resp)
           \<longrightarrow> int (length (top_candidates resp))
                 \<le> min (case top_k of None \<Rightarrow> 5 | Some j \<Rightarrow> j) (max_top_k settings))
       \<and> (recognize_url rt settings image_url top_k include_raw fs = (fs', n, Inr resp)
           \<longrightarrow> int (length (top_candidates resp))
                 \<le> min (case top_k of None \<Rightarrow> 5 | Some j \<Rightarrow> j) (max_top_k settings))"
proof (intro conjI impI)
  assume "recognize_file rt settings file top_k include_raw fs = (fs', n, Inr resp)"
  from recognize_file_parsed [OF this] obtain k candidates raw ms where
    "query_top_k top_k = Inr k" "parse_candidates rt raw = Inr candidates"
    "respond rt settings k include_raw (candidates, raw, ms) fs = (fs', Inr resp)"
    by blast
  from respond_length [OF this(3) this(2) this(1) assms]
  show "int (length (top_candidates resp))
          \<le> min (case top_k of None \<Rightarrow> 5 | Some j \<Rightarrow> j) (max_top_k settings)"
    by linarith
next
  assume "recognize_url rt settings image_url top_k include_raw fs = (fs', n, Inr resp)"
  from recognize_url_parsed [OF this] obtain k candidates raw ms where
    "query_top_k top_k = Inr k" "parse_candidates rt raw = Inr candidates"
    "respond rt settings k include_raw (candidates, raw, ms) fs = (fs', Inr resp)"
    by blast
  from respond_length [OF this(3) this(2) this(1) assms]
  show "int (length (top_candidates resp))
          \<le> min (case top_k of None \<Rightarrow> 5 | Some j \<Rightarrow> j) (max_top_k settings)"
    by linarith
qed

text \<open>
  The upstream of \<open>test_file_upload_returns_candidates\<close> with \<open>top_k = 2\<close>: both
  endpoints return the two best of the three candidates.
\<close>

theorem returned_candidates_within_limit_witness:
  "0 \<le> max_top_k test_settings
   \<and> recognize_file (mock_runtime mock_upstream_ok) test_settings label_png (Some 2) False Map.empty
       = ([''results/request-1.json'' \<mapsto> mock_top2], 1, Inr mock_top2)
   \<and> recognize_url (mock_runtime mock_upstream_ok) test_settings
         ''https://example.com/wine-label.jpg'' (Some 2) False Map.empty
       = ([''results/request-1.json'' \<mapsto> mock_top2], 1, Inr mock_top2)
   \<and> int (length (top_candidates mock_top2)) \<le> min 2 (max_top_k test_settings)"
  using returned_candidates_within_limit [of test_settings "mock_runtime mock_upstream_ok" label_png "Some 2" False Map.empty
      "[''results/request-1.json'' \<mapsto> mock_top2]" 1 mock_top2 "''https://example.com/wine-label.jpg''"]
    mock_file_run mock_url_run
  by (simp add: test_settings_def mock_top2_def)

text \<open>
  C3, as claimed: \<open>candidate_count\<close> is the number of candidates the normalizer produced,
  before the truncation. It is not: with three candidates and \<open>top_k = 2\<close> the response
  counts 2.
\<close>

theorem candidate_count_is_truncated_count:
  "map_sum id candidate_count
     (snd (snd (recognize_url (mock_runtime mock_upstream_ok) test_settings
        ''https://example.com/wine-label.jpg'' (Some 2) False Map.empty))) = Inr 2
   \<and> map_sum id length (parse_candidates (mock_runtime mock_upstream_ok) MOCK_API_RESPONSE) = Inr 3"
  by (simp add: mock_url_run mock_parse mock_top2_def)

text \<open>
  C3, amended. In every response, \<open>candidate_count\<close> is the length of the returned
  \<open>top_candidates\<close>, the count after the truncation (line 182, \<open>len(top_candidates)\<close>):
  with a \<open>max_top_k\<close> that is not negative it is the smallest of the number of candidates
  the normalizer produced, the limit asked for and \<open>max_top_k\<close>.
\<close>

theorem candidate_count_is_returned_length:
  "(recognize_file rt settings file top_k include_raw fs = (fs', n, Inr resp)
      \<longrightarrow> candidate_count resp = int (length (top_candidates resp))
          \<and> (\<exists>candidates raw ms.
                client_recognize_file rt settings (contents file)
                  (str_or (filename file) ''image.jpg'') (str_or (content_type file) ''image/jpeg'')
                  = (n, Inr (candidates, raw, ms))
                \<and> parse_candidates rt raw = Inr candidates
                \<and> (0 \<le> max_top_k settings \<longrightarrow>
                     candidate_count resp =
                       min (int (length candidates))
                           (min (case top_k of None \<Rightarrow> 5 | Some j \<Rightarrow> j) (max_top_k settings)))))
   \<and> (recognize_url rt settings image_url top_k include_raw fs = (fs', n, Inr resp)
      \<longrightarrow> candidate_count resp = int (length (top_candidates resp))
          \<and> (\<exists>candidates raw ms.
                client_recognize_url rt settings image_url = (n, Inr (candidates, raw, ms))
                \<and> parse_candidates rt raw = Inr candidates
                \<and> (0 \<le> max_top_k settings \<longrightarrow>
                     candidate_count resp =
                       min (int (length candidates))
                           (min (case top_k of None \<Rightarrow> 5 | Some j \<Rightarrow> j) (max_top_k settings)))))"
proof (intro conjI impI)
  assume run: "recognize_file rt settings file top_k include_raw fs = (fs', n, Inr resp)"
  from recognize_file_parsed [OF run] obtain k candidates raw ms where
    k: "query_top_k top_k = Inr k"
    and call: "client_recognize_file rt settings (contents file)
                  (str_or (filename file) ''image.jpg'') (str_or (content_type file) ''image/jpeg'')
                  = (n, Inr (candidates, raw, ms))"
    and parsed: "parse_candidates rt raw = Inr candidates"
    and resp: "respond rt settings k include_raw (candidates, raw, ms) fs = (fs', Inr resp)"
    by blast
  show count: "candidate_count resp = int (length (top_candidates resp))"
    by (rule respond_of_parsed(2) [OF resp parsed])
  have "0 \<le> max_top_k settings \<longrightarrow>
          candidate_count resp =
            min (int (length candidates))
                (min (case top_k of None \<Rightarrow> 5 | Some j \<Rightarrow> j) (max_top_k settings))"
    using respond_length [OF resp parsed k] count by simp
  with call parsed
  show "\<exists>candidates raw ms.
          client_recognize_file rt settings (contents file)
            (str_or (filename file) ''image.jpg'') (str_or (content_type file) ''image/jpeg'')
            = (n, Inr (candidates, raw, ms))
          \<and> parse_candidates rt raw = Inr candidates
          \<and> (0 \<le> max_top_k settings \<longrightarrow>
               candidate_count resp =
                 min (int (length candidates))
                     (min (case top_k of None \<Rightarrow> 5 | Some j \<Rightarrow> j) (max_top_k settings)))"
    by blast
next
  assume run: "recognize_url rt settings image_url top_k include_raw fs = (fs', n, Inr resp)"
  from recognize_url_parsed [OF run] obtain k candidates raw ms where
    k: "query_top_k top_k = Inr k"
    and call: "client_recognize_url rt settings image_url = (n, Inr (candidates, raw, ms))"
    and parsed: "parse_candidates rt raw = Inr candidates"
    and resp: "respond rt settings k include_raw (candidates, raw, ms) fs = (fs', Inr resp)"
    by blast
  show count: "candidate_count resp = int (length (top_candidates resp))"
    by (rule respond_of_parsed(2) [OF resp parsed])
  have "0 \<le> max_top_k settings \<longrightarrow>
          candidate_count resp =
            min (int (length candidates))
                (min (case top_k of None \<Rightarrow> 5 | Some j \<Rightarrow> j) (max_top_k settings))"
    using respond_length [OF resp parsed k] count by simp
  with call parsed
  show "\<exists>candidates raw ms.
          client_recognize_url rt settings image_url = (n, Inr (candidates, raw, ms))
          \<and> parse_candidates rt raw = Inr candidates
          \<and> (0 \<le> max_top_k settings \<longrightarrow>
               candidate_count resp =
                 min (int (length candidates))
                     (min (case top_k of None \<Rightarrow> 5 | Some j \<Rightarrow> j) (max_top_k settings)))"
    by blast
qed

text \<open>
  Both endpoints at the mock upstream with \<open>top_k = 2\<close>: three candidates produced, two
  returned and counted.
\<close>

theorem candidate_count_is_returned_length_witness:
  "recognize_file (mock_runtime mock_upstream_ok) test_settings label_png (Some 2) False Map.empty
       = ([''results/request-1.json'' \<mapsto> mock_top2], 1, Inr mock_top2)
   \<and> recognize_url (mock_runtime mock_upstream_ok) test_settings
         ''https://example.com/wine-label.jpg'' (Some 2) False Map.empty
       = ([''results/request-1.json'' \<mapsto> mock_top2], 1, Inr mock_top2)
   \<and> 0 \<le> max_top_k test_settings
   \<and> candidate_count mock_top2 = int (length (top_candidates mock_top2))
   \<and> candidate_count mock_top2 = min 3 (min 2 (max_top_k test_settings))"
  using candidate_count_is_returned_length [of "mock_runtime mock_upstream_ok" test_settings label_png "Some 2" False Map.empty
      "[''results/request-1.json'' \<mapsto> mock_top2]" 1 mock_top2 "''https://example.com/wine-label.jpg''"]
    mock_file_run mock_url_run
  by (simp add: test_settings_def mock_top2_def)

text \<open>
  C6, as claimed: a request with limit zero succeeds with an empty list. It does not: the
  bound \<open>ge=1\<close> of the query parameter rejects it before the endpoint runs.
\<close>

theorem limit_zero_fails_validation:
  "recognize_url (mock_runtime mock_upstream_ok) test_settings ''https://example.com/wine-label.jpg''
      (Some 0) False Map.empty
   = (Map.empty, 0, Inl RequestValidationError)"
  by (simp add: endpoint_defs)

text \<open>
  C6, amended. A request with limit zero never succeeds: on both endpoints it fails the
  validation of \<open>top_k\<close> (HTTP 422), or gets HTTP 503 when the credentials are missing;
  no upstream request is made and nothing is saved.
\<close>

theorem limit_zero_rejected:
  "recognize_file rt settings file (Some 0) include_raw fs =
     (fs, 0, Inl (if rapidapi_configured settings then RequestValidationError else HTTPException 503))
   \<and> recognize_url rt settings image_url (Some 0) include_raw fs =
     (fs, 0, Inl (if rapidapi_configured settings then RequestValidationError else HTTPException 503))"
  by (simp add: recognize_file_def recognize_url_def query_top_k_def)

text \<open>The rejection at the fixture of the tests.\<close>

theorem limit_zero_rejected_witness:
  "recognize_file (mock_runtime mock_upstream_ok) test_settings label_png (Some 0) False Map.empty
     = (Map.empty, 0, Inl RequestValidationError)
   \<and> recognize_url (mock_runtime mock_upstream_ok) test_settings
        ''https://example.com/wine-label.jpg'' (Some 0) False Map.empty
     = (Map.empty, 0, Inl RequestValidationError)"
  using limit_zero_rejected [of "mock_runtime mock_upstream_ok" test_settings label_png False
      Map.empty "''https://example.com/wine-label.jpg''"]
  by (simp add: rapidapi_configured_def test_settings_def)

subsection \<open>A failed request\<close>

lemma recognize_file_failure_keeps_fs:
  assumes "recognize_file rt settings file top_k include_raw fs = (fs', m, Inl e)"
  shows "fs' = fs"
  using assms
  by (auto simp add: recognize_file_def respond_def
           split: if_splits sum.splits prod.splits option.splits)

lemma recognize_url_failure_keeps_fs:
  assumes "recognize_url rt settings image_url top_k include_raw fs = (fs', m, Inl e)"
  shows "fs' = fs"
  using assms
  by (auto simp add: recognize_url_def respond_def split: if_splits sum.splits prod.splits)

lemma recognize_file_upstream_error:
  assumes "client_recognize_file rt settings (contents file)
             (str_or (filename file) ''image.jpg'') (str_or (content_type file) ''image/jpeg'')
           = (n, Inl (RapidAPIError kind sc))"
  shows "recognize_file rt settings file top_k include_raw fs = (fs, n, Inl (HTTPException 502))
         \<or> (\<exists>e. recognize_file rt settings file top_k include_raw fs = (fs, 0, Inl e))"
  using assms
  by (auto simp add: recognize_file_def split: sum.splits option.splits)

lemma recognize_url_upstream_error:
  assumes "client_recognize_url rt settings image_url = (n, Inl (RapidAPIError kind sc))"
  shows "recognize_url rt settings image_url top_k include_raw fs = (fs, n, Inl (HTTPException 502))
         \<or> (\<exists>e. recognize_url rt settings image_url top_k include_raw fs = (fs, 0, Inl e))"
  using assms
  by (auto simp add: recognize_url_def split: sum.splits)

text \<open>
  C10. When the upstream call an endpoint makes raises a \<open>RapidAPIError\<close>, the endpoint
  returns no response: it answers HTTP 502 after the attempts made (or had rejected the
  request before any attempt), and the saved results are unchanged. More generally every
  request that ends in an exception leaves the saved results unchanged: a result file is
  written only on the way to a returned response.
\<close>

theorem upstream_failure_saves_nothing:
  "(client_recognize_file rt settings (contents file)
       (str_or (filename file) ''image.jpg'') (str_or (content_type file) ''image/jpeg'')
     = (n, Inl (RapidAPIError kind sc))
    \<longrightarrow> recognize_file rt settings file top_k include_raw fs = (fs, n, Inl (HTTPException 502))
        \<or> (\<exists>e. recognize_file rt settings file top_k include_raw fs = (fs, 0, Inl e)))
   \<and> (client_recognize_url rt settings image_url = (n, Inl (RapidAPIError kind sc))
    \<longrightarrow> recognize_url rt settings image_url top_k include_raw fs = (fs, n, Inl (HTTPException 502))
        \<or> (\<exists>e. recognize_url rt settings image_url top_k include_raw fs = (fs, 0, Inl e)))
   \<and> (recognize_file rt settings file top_k include_raw fs = (fs', m, Inl e) \<longrightarrow> fs' = fs)
   \<and> (recognize_url rt settings image_url top_k include_raw fs = (fs', m, Inl e) \<longrightarrow> fs' = fs)"
proof (intro conjI impI)
  assume "client_recognize_file rt settings (contents file)
       (str_or (filename file) ''image.jpg'') (str_or (content_type file) ''image/jpeg'')
     = (n, Inl (RapidAPIError kind sc))"
  then show "recognize_file rt settings file top_k include_raw fs = (fs, n, Inl (HTTPException 502))
        \<or> (\<exists>e. recognize_file rt settings file top_k include_raw fs = (fs, 0, Inl e))"
    by (rule recognize_file_upstream_error)
next
  assume "client_recognize_url rt settings image_url = (n, Inl (RapidAPIError kind sc))"
  then show "recognize_url rt settings image_url top_k include_raw fs = (fs, n, Inl (HTTPException 502))
        \<or> (\<exists>e. recognize_url rt settings image_url top_k include_raw fs = (fs, 0, Inl e))"
    by (rule recognize_url_upstream_error)
next
  assume "recognize_file rt settings file top_k include_raw fs = (fs', m, Inl e)"
  then show "fs' = fs" by (rule recognize_file_failure_keeps_fs)
next
  assume "recognize_url rt settings image_url top_k include_raw fs = (fs', m, Inl e)"
  then show "fs' = fs" by (rule recognize_url_failure_keeps_fs)
qed

text \<open>
  The upstream of \<open>test_upstream_timeout_returns_502\<close>: two timeouts, HTTP 502, and the
  one file saved earlier is all there is.
\<close>

lemma mock_client_file_timeout:
  "client_recognize_file (mock_runtime mock_upstream_timeout) test_settings (contents label_png)
     (str_or (filename label_png) ''image.jpg'') (str_or (content_type label_png) ''image/jpeg'')
   = (2, Inl (RapidAPIError (TimedOut 10000) None))"
  by (simp add: endpoint_defs)

lemma mock_client_url_timeout:
  "client_recognize_url (mock_runtime mock_upstream_timeout) test_settings
     ''https://example.com/wine-label.jpg''
   = (2, Inl (RapidAPIError (TimedOut 10000) None))"
  by (simp add: endpoint_defs)

theorem upstream_failure_saves_nothing_witness:
  "client_recognize_file (mock_runtime mock_upstream_timeout) test_settings (contents label_png)
     (str_or (filename label_png) ''image.jpg'') (str_or (content_type label_png) ''image/jpeg'')
   = (2, Inl (RapidAPIError (TimedOut 10000) None))
   \<and> client_recognize_url (mock_runtime mock_upstream_timeout) test_settings
     ''https://example.com/wine-label.jpg''
   = (2, Inl (RapidAPIError (TimedOut 10000) None))
   \<and> recognize_file (mock_runtime mock_upstream_timeout) test_settings label_png None False
        [''results/earlier.json'' \<mapsto> mock_top2]
      = ([''results/earlier.json'' \<mapsto> mock_top2], 2, Inl (HTTPException 502))
   \<and> recognize_url (mock_runtime mock_upstream_timeout) test_settings
        ''https://example.com/wine-label.jpg'' None False [''results/earlier.json'' \<mapsto> mock_top2]
      = ([''results/earlier.json'' \<mapsto> mock_top2], 2, Inl (HTTPException 502))"
  using upstream_failure_saves_nothing [of "mock_runtime mock_upstream_timeout" test_settings label_png 2 "TimedOut 10000" None
      None False "[''results/earlier.json'' \<mapsto> mock_top2]" "''https://example.com/wine-label.jpg''"
      "[''results/earlier.json'' \<mapsto> mock_top2]" 2 "HTTPException 502"]
    mock_client_file_timeout mock_client_url_timeout
  by (auto simp add: endpoint_defs)

section \<open>The normalizer on a well-formed envelope\<close>

text \<open>A loop whose body returns on every element returns, and keeps what its body keeps.\<close>

lemma for_loop_returns:
  assumes "\<And>x s. x \<in> set xs \<Longrightarrow> P s \<Longrightarrow> \<exists>s'. body s x = Inr s' \<and> P s'"
    and "P s"
  shows "\<exists>s'. for_loop body xs s = Inr s' \<and> P s'"
  using assms
proof (induction xs arbitrary: s)
  case Nil
  then show ?case by simp
next
  case (Cons x xs)
  from Cons.prems obtain s1 where s1: "body s x = Inr s1" "P s1"
    by (meson list.set_intros(1))
  have "\<exists>s'. for_loop body xs s1 = Inr s' \<and> P s'"
    using Cons.prems(1) s1(2) by (intro Cons.IH) auto
  with s1 show ?case by simp
qed

lemma coerce_score_ok:
  assumes "score_ok rt v"
  shows "\<exists>r. coerce_score rt v = Inr (Finite r) \<and> 0 \<le> r \<and> r \<le> 1"
proof (cases v)
  case (JInt i)
  with assms have "i = 0 \<or> i = 1" by auto
  then show ?thesis
    using JInt by (auto simp add: coerce_score_def py_or_def float_overflow_bound_def)
next
  case (JFloat f)
  with assms show ?thesis
    by (cases f) (auto simp add: coerce_score_def py_or_def)
next
  case (JStr s)
  with assms show ?thesis
    by (auto simp add: coerce_score_def py_or_def split: option.splits pyfloat.splits)
qed (use assms in \<open>auto simp add: coerce_score_def py_or_def\<close>)

lemma coerce_score_no_overflow:
  assumes "no_overflow v"
  shows "\<exists>f. coerce_score rt v = Inr f"
proof (cases v)
  case (JInt i)
  with assms show ?thesis
    by (auto simp add: coerce_score_def py_or_def)
next
  case (JStr s)
  then show ?thesis
    by (auto simp add: coerce_score_def py_or_def split: option.splits)
qed (auto simp add: coerce_score_def py_or_def)

lemma class_body_returns:
  assumes "class_ok rt cls" and "list_all valid_candidate candidates"
  shows "\<exists>cs. class_body rt candidates cls = Inr cs \<and> list_all valid_candidate cs"
proof (cases cls)
  case (JDict d)
  let ?l = "dict_get d ''class'' JNull" and ?s = "dict_get d ''score'' JNull"
  from assms(1) JDict have l: "label_ok ?l"
    and s: "score_ok rt ?s \<or> (blank_label ?l \<and> no_overflow ?s)" by simp_all
  from l have "\<exists>lbl. str_strip (py_or ?l (JStr '''')) = Inr lbl"
    by (cases ?l) (auto simp add: py_or_def)
  then obtain lbl where lbl: "str_strip (py_or ?l (JStr '''')) = Inr lbl" by blast
  from s show ?thesis
  proof
    assume "score_ok rt ?s"
    from coerce_score_ok [OF this] obtain r where
      "coerce_score rt ?s = Inr (Finite r)" "0 \<le> r" "r \<le> 1" by blast
    with lbl assms(2) JDict show ?thesis
      by (auto simp add: class_body_def valid_candidate_def)
  next
    assume b: "blank_label ?l \<and> no_overflow ?s"
    then obtain f where "coerce_score rt ?s = Inr f"
      using coerce_score_no_overflow by blast
    moreover from b lbl have "lbl = []"
      by (cases ?l) (auto simp add: py_or_def strip_def split: if_splits)
    ultimately show ?thesis
      using lbl assms(2) JDict by (simp add: class_body_def)
  qed
qed (use assms in \<open>auto simp add: class_body_def\<close>)

lemma entity_body_returns:
  assumes "entity_ok rt entity" and "list_all valid_candidate candidates"
  shows "\<exists>cs. entity_body rt candidates entity = Inr cs \<and> list_all valid_candidate cs"
proof (cases entity)
  case (JDict d)
  let ?c = "dict_get d ''classes'' (JList [])"
  from assms(1) JDict have ok: "classes_ok rt ?c" by simp
  have "\<exists>xs. py_iter ?c = Inr xs \<and> list_all (class_ok rt) xs"
    using ok by (cases ?c) (auto simp add: list_all_iff)
  then obtain xs where xs: "py_iter ?c = Inr xs" "list_all (class_ok rt) xs" by blast
  have "\<exists>cs. for_loop (class_body rt) xs candidates = Inr cs \<and> list_all valid_candidate cs"
    using xs(2) assms(2)
    by (intro for_loop_returns [where P = "list_all valid_candidate"])
       (auto simp add: list_all_iff intro: class_body_returns [unfolded list_all_iff])
  with xs(1) JDict show ?thesis by (simp add: entity_body_def)
qed (use assms in auto)

lemma result_body_returns:
  assumes "result_ok rt result" and "list_all valid_candidate candidates"
  shows "\<exists>cs. result_body rt candidates result = Inr cs \<and> list_all valid_candidate cs"
proof (cases result)
  case (JDict d)
  from assms(1) JDict obtain st where st: "dict_get d ''status'' (JDict []) = JDict st"
    by (cases "dict_get d ''status'' (JDict [])") auto
  with assms(1) JDict obtain c where c: "dict_get st ''code'' (JStr '''') = JStr c"
    by (cases "dict_get st ''code'' (JStr '''')") auto
  show ?thesis
  proof (cases "lower c \<notin> {''ok'', ''success'', ''''}")
    case True
    with st c JDict assms(2) show ?thesis by (simp add: result_body_def)
  next
    case False
    with assms(1) JDict st c have "entities_ok rt (dict_get d ''entities'' (JList []))" by auto
    then obtain es where es: "dict_get d ''entities'' (JList []) = JList es"
      "list_all (entity_ok rt) es"
      by (cases "dict_get d ''entities'' (JList [])") auto
    have "\<exists>cs. for_loop (entity_body rt) es candidates = Inr cs \<and> list_all valid_candidate cs"
      using es(2) assms(2)
      by (intro for_loop_returns [where P = "list_all valid_candidate"])
         (auto simp add: list_all_iff intro: entity_body_returns [unfolded list_all_iff])
    with False st c es(1) JDict show ?thesis by (simp add: result_body_def)
  qed
qed (use assms in auto)

lemma collect_candidates_returns:
  assumes "envelope_ok rt raw"
  shows "\<exists>cs. collect_candidates rt raw = Inr cs \<and> list_all valid_candidate cs"
proof -
  from assms obtain rs where rs: "dict_get raw ''results'' (JList []) = JList rs"
    "list_all (result_ok rt) rs"
    by (cases "dict_get raw ''results'' (JList [])") (auto simp add: envelope_ok_def)
  have "\<exists>cs. for_loop (result_body rt) rs [] = Inr cs \<and> list_all valid_candidate cs"
    using rs(2)
    by (intro for_loop_returns [where P = "list_all valid_candidate"])
       (auto simp add: list_all_iff intro: result_body_returns [unfolded list_all_iff])
  with rs(1) show ?thesis by (simp add: collect_candidates_def)
qed

text \<open>
  C2, as claimed: the normalizer never raises, whatever the envelope holds; an entry with
  a score out of range is omitted. It is not: a labelled entry with score 1.5 fails the
  bounds of \<open>WineCandidate.confidence\<close>, and the normalizer raises the validation error.
\<close>

theorem out_of_range_score_raises:
  "parse_candidates (mock_runtime mock_upstream_ok)
     (envelope_of_classes (JList
        [JDict [(''class'', JStr ''Some Wine''), (''score'', JFloat (Finite 1.5))]]))
   = Inl ValidationError"
  by (simp add: normalizer_defs)

text \<open>
  Other envelopes on which the normalizer raises: a null \<open>status.code\<close>, a null
  \<open>results\<close>, a label that is a number.
\<close>

lemma parse_candidates_null_code_raises:
  "parse_candidates rt [(''results'', JList [JDict [(''status'', JDict [(''code'', JNull)])]])]
   = Inl AttributeError"
  by (simp add: normalizer_defs)

lemma parse_candidates_null_results_raises:
  "parse_candidates rt [(''results'', JNull)] = Inl TypeError"
  by (simp add: normalizer_defs)

lemma parse_candidates_number_label_raises:
  "parse_candidates rt (envelope_of_classes (JList [JDict [(''class'', JInt 7)]]))
   = Inl AttributeError"
  by (simp add: normalizer_defs)

text \<open>
  C2, amended. On every well-formed envelope (\<open>envelope_ok\<close>: the fields have the shapes
  of the data model, and each score that goes with a label lies in \<open>[0, 1]\<close> where it is a
  number) the normalizer raises nothing: it returns a sequence of candidates, possibly
  empty, each with a label that is not empty and a confidence in \<open>[0, 1]\<close>. A well-formed
  envelope may lack \<open>results\<close>, \<open>entities\<close> or \<open>classes\<close>, and may hold, among the
  classes, entries that are not objects, labels that are blank and scores that are not
  numbers.
\<close>

theorem well_formed_envelope_normalizes:
  assumes "envelope_ok rt raw"
  shows "\<exists>candidates. parse_candidates rt raw = Inr candidates
           \<and> list_all valid_candidate candidates"
proof -
  from collect_candidates_returns [OF assms] obtain cs where
    cs: "collect_candidates rt raw = Inr cs" "list_all valid_candidate cs" by blast
  from cs(2) have "list_all valid_candidate (sorted_reverse confidence cs)"
    by (simp add: list_all_iff sorted_reverse_def)
  with cs(1) show ?thesis by (simp add: parse_candidates_def)
qed

lemmas shape_defs = envelope_ok_def valid_candidate_def

theorem well_formed_envelope_normalizes_witness:
  "envelope_ok (mock_runtime mock_upstream_ok) MOCK_API_RESPONSE
   \<and> parse_candidates (mock_runtime mock_upstream_ok) MOCK_API_RESPONSE =
       Inr [\<lparr>label = ''Chateau Margaux 2015'', confidence = 0.92\<rparr>,
            \<lparr>label = ''Chateau Latour 2016'', confidence = 0.75\<rparr>,
            \<lparr>label = ''Penfolds Grange 2018'', confidence = 0.61\<rparr>]"
  using well_formed_envelope_normalizes [of "mock_runtime mock_upstream_ok" MOCK_API_RESPONSE]
  by (simp add: shape_defs normalizer_defs MOCK_API_RESPONSE_def)

section \<open>The order of the candidates\<close>

text \<open>
  C4. The candidates the normalizer returns are in descending order of confidence, and the
  sort is stable: they are the candidates in the order the loops met them, rearranged, and
  those of any one confidence keep that order. The \<open>top_candidates\<close> of every response are
  in descending order too, and are a prefix of what the normalizer returned for the
  envelope of the successful attempt.
\<close>

theorem candidates_sorted_descending_stable:
  "(parse_candidates rt raw = Inr out
      \<longrightarrow> sorted_wrt (\<lambda>a b. confidence b \<le> confidence a) out
          \<and> (\<exists>encountered. collect_candidates rt raw = Inr encountered
                \<and> mset out = mset encountered
                \<and> (\<forall>c. filter (\<lambda>x. confidence x = c) out
                         = filter (\<lambda>x. confidence x = c) encountered)))
   \<and> (recognize_file rt settings file top_k include_raw fs = (fs', n, Inr resp)
      \<longrightarrow> sorted_wrt (\<lambda>a b. confidence b \<le> confidence a) (top_candidates resp)
          \<and> (\<exists>candidates envelope ms j.
                client_recognize_file rt settings (contents file)
                  (str_or (filename file) ''image.jpg'') (str_or (content_type file) ''image/jpeg'')
                  = (n, Inr (candidates, envelope, ms))
                \<and> parse_candidates rt envelope = Inr candidates
                \<and> top_candidates resp = take j candidates))
   \<and> (recognize_url rt settings image_url top_k include_raw fs = (fs', n, Inr resp)
      \<longrightarrow> sorted_wrt (\<lambda>a b. confidence b \<le> confidence a) (top_candidates resp)
          \<and> (\<exists>candidates envelope ms j.
                client_recognize_url rt settings image_url = (n, Inr (candidates, envelope, ms))
                \<and> parse_candidates rt envelope = Inr candidates
                \<and> top_candidates resp = take j candidates))"
proof (intro conjI impI)
  assume p: "parse_candidates rt raw = Inr out"
  then show "sorted_wrt (\<lambda>a b. confidence b \<le> confidence a) out"
    by (rule parse_candidates_descending)
  from p obtain cs where cs: "collect_candidates rt raw = Inr cs"
    and out: "out = sorted_reverse confidence cs"
    by (auto simp add: parse_candidates_def split: sum.splits)
  then show "\<exists>encountered. collect_candidates rt raw = Inr encountered
                \<and> mset out = mset encountered
                \<and> (\<forall>c. filter (\<lambda>x. confidence x = c) out
                         = filter (\<lambda>x. confidence x = c) encountered)"
    by (simp add: mset_sorted_reverse sorted_reverse_stable)
next
  assume run: "recognize_file rt settings file top_k include_raw fs = (fs', n, Inr resp)"
  from recognize_file_parsed [OF run] obtain k candidates raw ms where
    call: "client_recognize_file rt settings (contents file)
                  (str_or (filename file) ''image.jpg'') (str_or (content_type file) ''image/jpeg'')
                  = (n, Inr (candidates, raw, ms))"
    and parsed: "parse_candidates rt raw = Inr candidates"
    and resp: "respond rt settings k include_raw (candidates, raw, ms) fs = (fs', Inr resp)"
    by blast
  show "sorted_wrt (\<lambda>a b. confidence b \<le> confidence a) (top_candidates resp)"
    by (rule respond_of_parsed(3) [OF resp parsed])
  from respond_of_parsed(1) [OF resp parsed] slice_to_take
  obtain j where "top_candidates resp = take j candidates" by metis
  with call parsed
  show "\<exists>candidates envelope ms j.
          client_recognize_file rt settings (contents file)
            (str_or (filename file) ''image.jpg'') (str_or (content_type file) ''image/jpeg'')
            = (n, Inr (candidates, envelope, ms))
          \<and> parse_candidates rt envelope = Inr candidates
          \<and> top_candidates resp = take j candidates"
    by blast
next
  assume run: "recognize_url rt settings image_url top_k include_raw fs = (fs', n, Inr resp)"
  from recognize_url_parsed [OF run] obtain k candidates raw ms where
    call: "client_recognize_url rt settings image_url = (n, Inr (candidates, raw, ms))"
    and parsed: "parse_candidates rt raw = Inr candidates"
    and resp: "respond rt settings k include_raw (candidates, raw, ms) fs = (fs', Inr resp)"
    by blast
  show "sorted_wrt (\<lambda>a b. confidence b \<le> confidence a) (top_candidates resp)"
    by (rule respond_of_parsed(3) [OF resp parsed])
  from respond_of_parsed(1) [OF resp parsed] slice_to_take
  obtain j where "top_candidates resp = take j candidates" by metis
  with call parsed
  show "\<exists>candidates envelope ms j.
          client_recognize_url rt settings image_url = (n, Inr (candidates, envelope, ms))
          \<and> parse_candidates rt envelope = Inr candidates
          \<and> top_candidates resp = take j candidates"
    by blast
qed

text \<open>
  An envelope with a tie: A and C, both 0.5, stay in the order met, after B. The responses
  are those of the mock upstream.
\<close>

theorem candidates_sorted_descending_stable_witness:
  "parse_candidates (mock_runtime mock_upstream_ok) TIED_RESPONSE =
     Inr [\<lparr>label = ''B'', confidence = 0.9\<rparr>, \<lparr>label = ''A'', confidence = 0.5\<rparr>,
          \<lparr>label = ''C'', confidence = 0.5\<rparr>]
   \<and> collect_candidates (mock_runtime mock_upstream_ok) TIED_RESPONSE =
     Inr [\<lparr>label = ''A'', confidence = 0.5\<rparr>, \<lparr>label = ''B'', confidence = 0.9\<rparr>,
          \<lparr>label = ''C'', confidence = 0.5\<rparr>]
   \<and> recognize_file (mock_runtime mock_upstream_ok) test_settings label_png (Some 2) False Map.empty
       = ([''results/request-1.json'' \<mapsto> mock_top2], 1, Inr mock_top2)
   \<and> recognize_url (mock_runtime mock_upstream_ok) test_settings
         ''https://example.com/wine-label.jpg'' (Some 2) False Map.empty
       = ([''results/request-1.json'' \<mapsto> mock_top2], 1, Inr mock_top2)
   \<and> sorted_wrt (\<lambda>a b. confidence b \<le> confidence a) (top_candidates mock_top2)"
  using candidates_sorted_descending_stable [of "mock_runtime mock_upstream_ok" TIED_RESPONSE
      "[\<lparr>label = ''B'', confidence = 0.9\<rparr>, \<lparr>label = ''A'', confidence = 0.5\<rparr>,
        \<lparr>label = ''C'', confidence = 0.5\<rparr>]"
      test_settings label_png "Some 2" False Map.empty
      "[''results/request-1.json'' \<mapsto> mock_top2]" 1 mock_top2 "''https://example.com/wine-label.jpg''"]
    mock_file_run mock_url_run
  by (simp add: normalizer_defs TIED_RESPONSE_def mock_top2_def)

end
